theory Spec2Isabelle
  imports Complex_Main "HOL-Library.Sublist"
begin

section \<open>Numbers and great-circle distance\<close>

text \<open>
  JavaScript numbers are modelled as exact reals: rounding, NaN and the infinities of
  IEEE doubles are outside the model. \<open>Math.atan2\<close> is the two-argument arctangent,
  written out by quadrant.

  The model and the source part ways where rounding decides the result. In exact
  arithmetic the intermediate \<open>a\<close> of \<open>haversine\<close> never leaves the interval from 0 to 1
  (\<open>haversine_a_range\<close> below). In doubles it can round to a value above 1 for points that
  are antipodal or nearly so: from (-82, -180) to (82, 0) the source computes
  \<open>a = 1.0000000000000002\<close>, \<^verbatim>\<open>Math.sqrt(1 - a)\<close> is NaN and so is the distance, while the
  model gives half the circumference. No statement about \<open>haversine\<close> below is a statement
  about the source at such points.
\<close>

definition atan2 :: "real \<Rightarrow> real \<Rightarrow> real" where
  "atan2 y x =
     (if 0 < x then arctan (y / x)
      else if x < 0 \<and> 0 \<le> y then arctan (y / x) + pi
      else if x < 0 \<and> y < 0 then arctan (y / x) - pi
      else if 0 < y then pi / 2
      else if y < 0 then - (pi / 2)
      else 0)"

text \<open>
  \<^verbatim>\<open>function haversine(lat1, lon1, lat2, lon2)\<close>: the intermediate \<open>a\<close> of the source is
  \<open>haversine_a\<close>.
\<close>

definition haversine_a :: "real \<Rightarrow> real \<Rightarrow> real \<Rightarrow> real \<Rightarrow> real" where
  "haversine_a lat1 lon1 lat2 lon2 =
     (let dLat = (lat2 - lat1) * (pi / 180);
          dLon = (lon2 - lon1) * (pi / 180)
      in (sin (dLat / 2))\<^sup>2 +
         cos (lat1 * (pi / 180)) * cos (lat2 * (pi / 180)) * (sin (dLon / 2))\<^sup>2)"

definition haversine :: "real \<Rightarrow> real \<Rightarrow> real \<Rightarrow> real \<Rightarrow> real" where
  "haversine lat1 lon1 lat2 lon2 =
     (let R = 6371;
          a = haversine_a lat1 lon1 lat2 lon2
      in R * 2 * atan2 (sqrt a) (sqrt (1 - a)))"

section \<open>Sorting an array\<close>

text \<open>
  \<^verbatim>\<open>Array.prototype.sort(cmp)\<close> is stable, and for a consistent comparator its result is the
  one stable sorted arrangement of the array; it is modelled by a stable insertion sort. The
  comparator returns a number: a result at most 0 keeps the first argument in front.
\<close>

fun js_insert :: "('a \<Rightarrow> 'a \<Rightarrow> real) \<Rightarrow> 'a \<Rightarrow> 'a list \<Rightarrow> 'a list" where
  "js_insert cmp x [] = [x]"
| "js_insert cmp x (y # ys) = (if cmp x y \<le> 0 then x # y # ys else y # js_insert cmp x ys)"

fun js_sort :: "('a \<Rightarrow> 'a \<Rightarrow> real) \<Rightarrow> 'a list \<Rightarrow> 'a list" where
  "js_sort cmp [] = []"
| "js_sort cmp (x # xs) = js_insert cmp x (js_sort cmp xs)"

section \<open>Hospital ranking (WorkCentricHospitalService)\<close>

text \<open>
  An element of the directory's response. \<open>el_lat\<close>, \<open>el_lon\<close> and the two parts of
  \<open>el_center\<close> are absent (\<open>None\<close>) or a number; \<open>el_nodes\<close> is the truthiness of
  \<^verbatim>\<open>element.nodes\<close>; \<open>el_tags\<close> is the tag object, an absent one being the empty map (every
  read of it goes through \<^verbatim>\<open>?.\<close>).
\<close>

record element =
  el_id :: int
  el_type :: string
  el_lat :: "real option"
  el_lon :: "real option"
  el_center :: "(real option \<times> real option) option"
  el_nodes :: bool
  el_tags :: "string \<rightharpoonup> string"

text \<open>The template strings \<^verbatim>\<open>hospital-${element.id}\<close> and \<^verbatim>\<open>fallback-hospital-${index}\<close>.\<close>

datatype hospital_id = HospitalId int | FallbackHospitalId nat

text \<open>A facility as the ranker builds it; a field the fallback objects lack is \<open>None\<close> there.\<close>

record hospital =
  h_id :: hospital_id
  h_name :: string
  h_type :: string
  h_position :: "real \<times> real"
  h_distance :: real
  h_address :: string
  h_phone :: string
  h_emergency :: bool
  h_website :: string
  h_wheelchairAccess :: bool
  h_openingHours :: "string option"
  h_emergencyHours :: "string option"
  h_specialties :: "string option"
  h_workPriority :: int
  h_tags :: "string \<rightharpoonup> string"

text \<open>Truthiness of an optional string, \<^verbatim>\<open>a || b\<close> on strings, and \<^verbatim>\<open>String.prototype.includes\<close>.\<close>

definition truthy_str :: "string option \<Rightarrow> bool" where
  "truthy_str v = (case v of None \<Rightarrow> False | Some s \<Rightarrow> s \<noteq> [])"

definition js_or :: "string option \<Rightarrow> string \<Rightarrow> string" where
  "js_or a b = (if truthy_str a then (case a of Some s \<Rightarrow> s | None \<Rightarrow> b) else b)"

fun js_includes :: "string \<Rightarrow> string \<Rightarrow> bool" where
  "js_includes [] t = (t = [])"
| "js_includes (c # cs) t = (prefix t (c # cs) \<or> js_includes cs t)"

text \<open>
  The coordinates the callback of \<^verbatim>\<open>data.elements.map\<close> resolves: \<open>None\<close> is the
  \<^verbatim>\<open>return null\<close> of the way-with-nodes branch, and \<open>Some (lat, lon)\<close> the two variables as
  they stand before the presence check (still \<open>None\<close> when no branch assigned them).
\<close>

definition resolve_coords :: "element \<Rightarrow> (real option \<times> real option) option" where
  "resolve_coords e =
     (if el_type e = ''node'' then Some (el_lat e, el_lon e)
      else (case el_center e of
              Some c \<Rightarrow> Some c
            | None \<Rightarrow> if el_type e = ''way'' \<and> el_nodes e then None else Some (None, None)))"

text \<open>\<^verbatim>\<open>!lat\<close> for an absent or numeric \<open>lat\<close>: absent, or the number 0.\<close>

definition falsy_num :: "real option \<Rightarrow> bool" where
  "falsy_num v = (case v of None \<Rightarrow> True | Some x \<Rightarrow> x = 0)"

definition isEmergencyTags :: "(string \<rightharpoonup> string) \<Rightarrow> bool" where
  "isEmergencyTags tags =
     (tags ''emergency'' = Some ''yes'' \<or>
      tags ''emergency:medical'' = Some ''yes'' \<or>
      (case tags ''healthcare:speciality'' of
         None \<Rightarrow> False
       | Some s \<Rightarrow> js_includes s ''emergency''))"

definition workPriorityOf :: "bool \<Rightarrow> (string \<rightharpoonup> string) \<Rightarrow> real \<Rightarrow> int" where
  "workPriorityOf isEmergency tags distance =
     (if isEmergency then 10 else 0) +
     (if tags ''wheelchair'' = Some ''yes'' then 5 else 0) +
     (if truthy_str (tags ''opening_hours:emergency'') then 3 else 0) +
     (if distance < 2 then 8 else if distance < 5 then 5 else if distance < 10 then 2 else 0)"

text \<open>The callback of \<^verbatim>\<open>data.elements.map\<close>; \<open>None\<close> is its \<^verbatim>\<open>null\<close>.\<close>

definition toHospital :: "real \<Rightarrow> real \<Rightarrow> element \<Rightarrow> hospital option" where
  "toHospital latitude longitude e =
     (case resolve_coords e of
        None \<Rightarrow> None
      | Some (olat, olon) \<Rightarrow>
          if falsy_num olat \<or> falsy_num olon then None
          else (case (olat, olon) of
                  (Some lat, Some lon) \<Rightarrow>
                    (let tags = el_tags e;
                         distance = haversine latitude longitude lat lon;
                         isEmergency = isEmergencyTags tags
                     in Some \<lparr> h_id = HospitalId (el_id e),
                          h_name = js_or (tags ''name'') (js_or (tags ''name:en'') ''Medical Facility''),
                          h_type = (if tags ''amenity'' = Some ''clinic'' then ''clinic'' else ''hospital''),
                          h_position = (lat, lon),
                          h_distance = distance,
                          h_address = js_or (tags ''addr:street'') (js_or (tags ''addr:full'') []),
                          h_phone = js_or (tags ''phone'') (js_or (tags ''contact:phone'') []),
                          h_emergency = isEmergency,
                          h_website = js_or (tags ''website'') (js_or (tags ''contact:website'') []),
                          h_wheelchairAccess = (tags ''wheelchair'' = Some ''yes''),
                          h_openingHours = Some (js_or (tags ''opening_hours'') []),
                          h_emergencyHours = Some (js_or (tags ''opening_hours:emergency'') []),
                          h_specialties = Some (js_or (tags ''healthcare:speciality'') []),
                          h_workPriority = workPriorityOf isEmergency tags distance,
                          h_tags = tags \<rparr>)
                | _ \<Rightarrow> None))"

text \<open>The comparator of \<^verbatim>\<open>hospitals.sort\<close> in \<^verbatim>\<open>findNearbyHospitals\<close>.\<close>

definition hospitalOrder :: "hospital \<Rightarrow> hospital \<Rightarrow> real" where
  "hospitalOrder a b =
     (if h_workPriority b \<noteq> h_workPriority a
      then real_of_int (h_workPriority b - h_workPriority a)
      else h_distance a - h_distance b)"

text \<open>\<^verbatim>\<open>getFallbackHospitals\<close>: the four literal entries, then the map and the sort.\<close>

record fallback_entry =
  fb_name :: string
  fb_lat :: real
  fb_lon :: real
  fb_emergency :: bool

definition fallbackHospitals :: "real \<Rightarrow> real \<Rightarrow> fallback_entry list" where
  "fallbackHospitals latitude longitude =
     [\<lparr> fb_name = ''Emergency Medical Center'', fb_lat = latitude + 0.01,
         fb_lon = longitude + 0.01, fb_emergency = True \<rparr>,
      \<lparr> fb_name = ''General Hospital'', fb_lat = latitude - 0.01,
         fb_lon = longitude + 0.01, fb_emergency = False \<rparr>,
      \<lparr> fb_name = ''City Medical Center'', fb_lat = latitude + 0.01,
         fb_lon = longitude - 0.01, fb_emergency = False \<rparr>,
      \<lparr> fb_name = ''Regional Hospital'', fb_lat = latitude - 0.01,
         fb_lon = longitude - 0.01, fb_emergency = True \<rparr>]"

definition fallbackHospital :: "real \<Rightarrow> real \<Rightarrow> nat \<times> fallback_entry \<Rightarrow> hospital" where
  "fallbackHospital latitude longitude ih =
     (case ih of (index, hospital) \<Rightarrow>
        \<lparr> h_id = FallbackHospitalId index,
          h_name = fb_name hospital,
          h_type = ''hospital'',
          h_position = (fb_lat hospital, fb_lon hospital),
          h_distance = haversine latitude longitude (fb_lat hospital) (fb_lon hospital),
          h_address = ''Address not available'',
          h_phone = ''Emergency: 911'',
          h_emergency = fb_emergency hospital,
          h_website = [],
          h_wheelchairAccess = False,
          h_openingHours = None,
          h_emergencyHours = None,
          h_specialties = None,
          h_workPriority = (if fb_emergency hospital then 10 else 5),
          h_tags = Map.empty \<rparr>)"

definition fallbackOrder :: "hospital \<Rightarrow> hospital \<Rightarrow> real" where
  "fallbackOrder a b = real_of_int (h_workPriority b - h_workPriority a)"

definition getFallbackHospitals :: "real \<Rightarrow> real \<Rightarrow> hospital list" where
  "getFallbackHospitals latitude longitude =
     js_sort fallbackOrder
       (map (fallbackHospital latitude longitude) (enumerate 0 (fallbackHospitals latitude longitude)))"

text \<open>
  What the facility directory answers: the request rejects (a network error), the response
  is not ok, its body is not JSON with an \<open>elements\<close> array, or it carries the elements.
  The radius goes into the query only, so it is no argument here.
\<close>

datatype directory_response =
  DirFetchRejected | DirNotOk | DirMalformed | DirElements "element list"

datatype js_error = NetworkFailure | Error string | TypeError

text \<open>The \<^verbatim>\<open>try\<close> block of \<^verbatim>\<open>findNearbyHospitals\<close>: \<open>Inl\<close> is what it throws.\<close>

definition queryHospitals :: "directory_response \<Rightarrow> real \<Rightarrow> real \<Rightarrow> js_error + hospital list" where
  "queryHospitals resp latitude longitude =
     (case resp of
        DirFetchRejected \<Rightarrow> Inl NetworkFailure
      | DirNotOk \<Rightarrow> Inl (Error ''Failed to fetch hospitals'')
      | DirMalformed \<Rightarrow> Inl TypeError
      | DirElements els \<Rightarrow>
          Inr (js_sort hospitalOrder (List.map_filter (toHospital latitude longitude) els)))"

definition findNearbyHospitals :: "directory_response \<Rightarrow> real \<Rightarrow> real \<Rightarrow> hospital list" where
  "findNearbyHospitals resp latitude longitude =
     (case queryHospitals resp latitude longitude of
        Inr hospitals \<Rightarrow> hospitals
      | Inl err \<Rightarrow> getFallbackHospitals latitude longitude)"


definition priority_before :: "hospital \<Rightarrow> hospital \<Rightarrow> bool" where
  "priority_before x y = (h_workPriority y \<le> h_workPriority x)"

definition alternating :: "bool list \<Rightarrow> bool" where
  "alternating bs = successively (\<lambda>x y. x \<noteq> y) bs"

text \<open>
  An element whose resolved latitude or longitude is the number 0, and one such element: a
  node on the equator.
\<close>

definition zero_coordinate :: "element \<Rightarrow> bool" where
  "zero_coordinate e =
     (case resolve_coords e of
        Some (olat, olon) \<Rightarrow> olat = Some 0 \<or> olon = Some 0
      | None \<Rightarrow> False)"

definition equator_node :: element where
  "equator_node = \<lparr> el_id = 7, el_type = ''node'', el_lat = Some 0, el_lon = Some 88.2,
     el_center = None, el_nodes = False, el_tags = [''emergency'' \<mapsto> ''yes''] \<rparr>"



section \<open>Road routing (RoutingService)\<close>

text \<open>
  A route of the provider's answer: \<open>or_geometry\<close> is \<^verbatim>\<open>route.geometry.coordinates\<close> (pairs
  longitude, latitude) and \<open>or_legs\<close> the steps of each leg; either is \<open>None\<close> when the
  answer lacks it, and reading it then throws a TypeError. A step is opaque.
\<close>

type_synonym step = string

record osrm_route =
  or_geometry :: "(real \<times> real) list option"
  or_distance :: real
  or_duration :: real
  or_legs :: "step list list option"

text \<open>
  What the routing provider answers: the request rejects, the response is not ok, the body
  is not JSON, or the body carries \<^verbatim>\<open>data.routes\<close> (\<open>None\<close> when the field is absent). The
  travel profile goes into the URL only.
\<close>

datatype routing_response =
  RouteFetchRejected | RouteNotOk | RouteMalformed | RouteBody "osrm_route list option"

text \<open>The result of \<^verbatim>\<open>getRoute\<close>; \<open>r_isFallback\<close> is false where the object has no such field.\<close>

record route =
  r_coordinates :: "(real \<times> real) list"
  r_distance :: real
  r_duration :: real
  r_steps :: "step list"
  r_isFallback :: bool

text \<open>The \<^verbatim>\<open>try\<close> block of \<^verbatim>\<open>getRoute\<close>: \<open>Inl\<close> is what it throws.\<close>

definition requestRoute :: "routing_response \<Rightarrow> js_error + route" where
  "requestRoute resp =
     (case resp of
        RouteFetchRejected \<Rightarrow> Inl NetworkFailure
      | RouteNotOk \<Rightarrow> Inl (Error ''Routing service unavailable'')
      | RouteMalformed \<Rightarrow> Inl TypeError
      | RouteBody routes \<Rightarrow>
          (case routes of
             Some (r # rest) \<Rightarrow>
               (case (or_geometry r, or_legs r) of
                  (Some coords, Some legs) \<Rightarrow>
                    Inr \<lparr> r_coordinates = map (\<lambda>coord. (snd coord, fst coord)) coords,
                          r_distance = or_distance r / 1000,
                          r_duration = or_duration r / 60,
                          r_steps = (case legs of [] \<Rightarrow> [] | leg # others \<Rightarrow> leg),
                          r_isFallback = False \<rparr>
                | _ \<Rightarrow> Inl TypeError)
           | _ \<Rightarrow> Inl (Error ''No route found'')))"

definition getRoute :: "routing_response \<Rightarrow> real \<Rightarrow> real \<Rightarrow> real \<Rightarrow> real \<Rightarrow> route" where
  "getRoute resp fromLat fromLng toLat toLng =
     (case requestRoute resp of
        Inr r \<Rightarrow> r
      | Inl err \<Rightarrow>
          \<lparr> r_coordinates = [(fromLat, fromLng), (toLat, toLng)],
            r_distance = haversine fromLat fromLng toLat toLng,
            r_duration = haversine fromLat fromLng toLat toLng * 2,
            r_steps = [],
            r_isFallback = True \<rparr>)"

text \<open>A destination merged with its route (\<^verbatim>\<open>{...dest, route, roadDistance, estimatedTime}\<close>).\<close>

record hospital_route = hospital +
  hr_route :: "route option"
  hr_roadDistance :: real
  hr_estimatedTime :: real

text \<open>
  \<^verbatim>\<open>getMultipleRoutes\<close>: \<open>answers i\<close> is the provider's answer to the request for the
  destination at index \<open>i\<close>. Every promise of \<^verbatim>\<open>getRoute\<close> is fulfilled, so the settled result
  is always \<open>Inr\<close>; the branch for a rejected one is kept as the source has it.
\<close>

definition mergeRoute :: "hospital \<Rightarrow> js_error + route \<Rightarrow> hospital_route" where
  "mergeRoute dest routeResult =
     (case routeResult of
        Inr v \<Rightarrow> hospital.extend dest
          \<lparr> hr_route = Some v, hr_roadDistance = r_distance v, hr_estimatedTime = r_duration v \<rparr>
      | Inl reason \<Rightarrow> hospital.extend dest
          \<lparr> hr_route = None, hr_roadDistance = h_distance dest,
            hr_estimatedTime = h_distance dest * 2 \<rparr>)"

definition getMultipleRoutes ::
  "(nat \<Rightarrow> routing_response) \<Rightarrow> real \<Rightarrow> real \<Rightarrow> hospital list \<Rightarrow> hospital_route list" where
  "getMultipleRoutes answers fromLat fromLng destinations =
     map (\<lambda>(index, dest).
            mergeRoute dest
              (Inr (getRoute (answers index) fromLat fromLng
                      (fst (h_position dest)) (snd (h_position dest)))))
         (enumerate 0 destinations)"

section \<open>Devices and connections (OptimizedNetworkPathfinder)\<close>

text \<open>
  A device object. \<open>d_position\<close> and \<open>d_lastUpdate\<close> are \<open>None\<close> for \<^verbatim>\<open>null\<close>; a timestamp
  is the \<^verbatim>\<open>Date\<close>'s milliseconds.
\<close>

record device =
  d_id :: string
  d_name :: string
  d_position :: "(real \<times> real) option"
  d_lastUpdate :: "int option"
  d_isOnline :: bool
  d_accuracy :: real
  d_workRole :: string
  d_emergencyResponder :: bool
  d_lastEmergencyUpdate :: "int option"

text \<open>The filter \<^verbatim>\<open>d => d.position && d.isOnline\<close>.\<close>

definition positioned_online :: "device \<Rightarrow> bool" where
  "positioned_online d = (d_position d \<noteq> None \<and> d_isOnline d)"

text \<open>
  \<^verbatim>\<open>device.position[0]\<close> and \<^verbatim>\<open>device.position[1]\<close>; the source reads them only from
  devices that passed the filter above.
\<close>

definition lat_of :: "device \<Rightarrow> real" where
  "lat_of d = fst (the (d_position d))"

definition lng_of :: "device \<Rightarrow> real" where
  "lng_of d = snd (the (d_position d))"

text \<open>
  A connection. \<open>c_from\<close> and \<open>c_to\<close> hold the devices as they were when the connection
  was built. The source holds references to the device objects, so the role fields that
  \<^verbatim>\<open>assignWorkRoles\<close> writes afterwards show through a connection there and not here; read
  a device's roles from \<open>sv_devices\<close>. \<open>c_workScore\<close> is \<open>None\<close> and
  \<open>c_isEmergencyPath\<close> false where the object has no such field.
\<close>

record connection =
  c_distance :: real
  c_from :: device
  c_to :: device
  c_positions :: "(real \<times> real) list"
  c_workScore :: "real option"
  c_isEmergencyPath :: bool

text \<open>The \<^verbatim>\<open>forEach\<close> over the hospital positions, adding 20 for each hospital near an endpoint.\<close>

definition workScoreOf :: "(real \<times> real) list \<Rightarrow> device \<Rightarrow> device \<Rightarrow> real \<Rightarrow> real" where
  "workScoreOf hospitalPositions n1 n2 dst =
     foldl (\<lambda>workScore hospitalPos.
              (let node1ToHospital = haversine (lat_of n1) (lng_of n1) (fst hospitalPos) (snd hospitalPos);
                   node2ToHospital = haversine (lat_of n2) (lng_of n2) (fst hospitalPos) (snd hospitalPos)
               in if node1ToHospital < 2 \<or> node2ToHospital < 2 then workScore + 20 else workScore))
           (100 - dst * 10) hospitalPositions"

definition makePath :: "(real \<times> real) list \<Rightarrow> device \<Rightarrow> device \<Rightarrow> connection" where
  "makePath hospitalPositions n1 n2 =
     (let dst = haversine (lat_of n1) (lng_of n1) (lat_of n2) (lng_of n2)
      in \<lparr> c_distance = dst,
           c_from = n1,
           c_to = n2,
           c_positions = [the (d_position n1), the (d_position n2)],
           c_workScore = Some (workScoreOf hospitalPositions n1 n2 dst),
           c_isEmergencyPath = False \<rparr>)"

text \<open>The two nested loops over \<open>i < j\<close>, pushing one path per pair in that order.\<close>

fun pairPaths :: "(real \<times> real) list \<Rightarrow> device list \<Rightarrow> connection list" where
  "pairPaths hospitalPositions [] = []"
| "pairPaths hospitalPositions (n # rest) =
     map (makePath hospitalPositions n) rest @ pairPaths hospitalPositions rest"

definition workScoreOrder :: "connection \<Rightarrow> connection \<Rightarrow> real" where
  "workScoreOrder a b = the (c_workScore b) - the (c_workScore a)"

definition findWorkOptimalPaths :: "device list \<Rightarrow> hospital list \<Rightarrow> connection list" where
  "findWorkOptimalPaths devs hospitals =
     (let nodes = filter positioned_online devs
      in if length nodes < 2 then []
         else (let hospitalPositions = map h_position (take 3 hospitals)
               in js_sort workScoreOrder (pairPaths hospitalPositions nodes)))"

text \<open>
  The loop of \<^verbatim>\<open>findMinimumSpanningTree\<close> over the paths sorted by distance: \<open>mst\<close> and
  \<open>connectedNodes\<close> are its two variables, \<open>limit\<close> is the number of online positioned
  devices minus one, and reaching it is the \<^verbatim>\<open>break\<close>.
\<close>

fun mstLoop :: "int \<Rightarrow> connection list \<Rightarrow> connection list \<Rightarrow> string set \<Rightarrow> connection list" where
  "mstLoop limit [] mst connectedNodes = mst"
| "mstLoop limit (path # rest) mst connectedNodes =
     (let fromConnected = (d_id (c_from path) \<in> connectedNodes);
          toConnected = (d_id (c_to path) \<in> connectedNodes)
      in if \<not> fromConnected \<or> \<not> toConnected
         then (if int (length (mst @ [path])) = limit
               then mst @ [path]
               else mstLoop limit rest (mst @ [path])
                      (insert (d_id (c_to path)) (insert (d_id (c_from path)) connectedNodes)))
         else mstLoop limit rest mst connectedNodes)"

definition distanceOrder :: "connection \<Rightarrow> connection \<Rightarrow> real" where
  "distanceOrder a b = c_distance a - c_distance b"

definition findMinimumSpanningTree :: "device list \<Rightarrow> hospital list \<Rightarrow> connection list" where
  "findMinimumSpanningTree devs hospitals =
     (let paths = findWorkOptimalPaths devs hospitals
      in if length paths = 0 then []
         else mstLoop (int (length (filter positioned_online devs)) - 1)
                (js_sort distanceOrder paths) [] {})"

text \<open>
  The \<^verbatim>\<open>forEach\<close> that finds the device closest to a hospital: the pair is
  \<^verbatim>\<open>closestToHospital\<close> and \<^verbatim>\<open>shortestDistToHospital\<close>.
\<close>

fun closestLoop :: "hospital \<Rightarrow> device list \<Rightarrow> device \<times> real \<Rightarrow> device \<times> real" where
  "closestLoop nearestHospital [] best = best"
| "closestLoop nearestHospital (dev # rest) best =
     (let distToHospital = haversine (lat_of dev) (lng_of dev)
            (fst (h_position nearestHospital)) (snd (h_position nearestHospital))
      in if distToHospital < snd best
         then closestLoop nearestHospital rest (dev, distToHospital)
         else closestLoop nearestHospital rest best)"

definition closestDeviceTo :: "hospital \<Rightarrow> device \<Rightarrow> device list \<Rightarrow> device" where
  "closestDeviceTo nearestHospital first devs =
     fst (closestLoop nearestHospital devs
            (first, haversine (lat_of first) (lng_of first)
                      (fst (h_position nearestHospital)) (snd (h_position nearestHospital))))"

definition createEmergencyTopology :: "device list \<Rightarrow> hospital list \<Rightarrow> connection list" where
  "createEmergencyTopology devs hospitals =
     (let onlineDevices = filter positioned_online devs
      in case (onlineDevices, hospitals) of
           (first # others, nearestHospital # lower) \<Rightarrow>
             (let closestToHospital = closestDeviceTo nearestHospital first onlineDevices
              in map (\<lambda>dev.
                        \<lparr> c_distance = haversine (lat_of closestToHospital) (lng_of closestToHospital)
                                         (lat_of dev) (lng_of dev),
                          c_from = closestToHospital,
                          c_to = dev,
                          c_positions = [the (d_position closestToHospital), the (d_position dev)],
                          c_workScore = None,
                          c_isEmergencyPath = True \<rparr>)
                     (filter (\<lambda>dev. d_id dev \<noteq> d_id closestToHospital) onlineDevices))
         | _ \<Rightarrow> [])"

text \<open>A registered worker, for worked examples.\<close>

definition worker :: "string \<Rightarrow> (real \<times> real) option \<Rightarrow> int option \<Rightarrow> device" where
  "worker deviceId position lastUpdate =
     \<lparr> d_id = deviceId, d_name = ''Worker'', d_position = position, d_lastUpdate = lastUpdate,
       d_isOnline = True, d_accuracy = 0, d_workRole = ''worker'', d_emergencyResponder = False,
       d_lastEmergencyUpdate = None \<rparr>"

section \<open>The coordination service (WorkCentricLocationService)\<close>

record workContext =
  wc_emergencyMode :: bool
  wc_prioritizeSpeed :: bool
  wc_maxResponseTime :: nat

text \<open>The object \<^verbatim>\<open>notifySubscribers\<close> passes to each callback.\<close>

record snapshot =
  sn_devices :: "device list"
  sn_connections :: "connection list"
  sn_hospitals :: "hospital list"
  sn_hospitalRoutes :: "hospital_route list"
  sn_topology :: string
  sn_workContext :: workContext
  sn_emergencyRoute :: "hospital_route option"
  sn_shortestRoute :: "hospital_route option"

text \<open>
  The service object. \<open>sv_devices\<close> is the \<^verbatim>\<open>Map\<close> of devices in insertion order: every
  entry is stored under its own \<open>d_id\<close>, so the list of values stands for the map.
  \<open>sv_subscribers\<close> is the \<^verbatim>\<open>Set\<close> of callbacks in insertion order, a callback being known
  by a number. \<open>sv_autoSelectShortestRoute\<close> is \<open>None\<close> while the field is unset or null.
  Two fields record effects: \<open>sv_delivered\<close> lists every call of a subscriber's callback
  with the snapshot it received (the values at the time of the call), and \<open>sv_timers\<close>
  counts the callbacks scheduled with \<^verbatim>\<open>setTimeout\<close> that have not run yet. A callback is
  taken to return normally and to leave the service alone. The field \<^verbatim>\<open>routingCache\<close> is never
  read or written and is left out.
\<close>

record service =
  sv_devices :: "device list"
  sv_hospitals :: "hospital list"
  sv_hospitalRoutes :: "hospital_route list"
  sv_subscribers :: "nat list"
  sv_networkTopology :: string
  sv_connections :: "connection list"
  sv_workContext :: workContext
  sv_autoSelectShortestRoute :: "hospital_route option"
  sv_delivered :: "(nat \<times> snapshot) list"
  sv_timers :: nat

text \<open>The constructor.\<close>

definition newService :: service where
  "newService =
     \<lparr> sv_devices = [],
       sv_hospitals = [],
       sv_hospitalRoutes = [],
       sv_subscribers = [],
       sv_networkTopology = ''emergency'',
       sv_connections = [],
       sv_workContext = \<lparr> wc_emergencyMode = False, wc_prioritizeSpeed = True,
                          wc_maxResponseTime = 15 \<rparr>,
       sv_autoSelectShortestRoute = None,
       sv_delivered = [],
       sv_timers = 0 \<rparr>"

text \<open>\<^verbatim>\<open>Map.get\<close>, \<^verbatim>\<open>Map.set\<close> and \<^verbatim>\<open>Map.delete\<close> on the devices, and the in-place update of the
  device objects stored under an id.\<close>

definition getDevice :: "string \<Rightarrow> device list \<Rightarrow> device option" where
  "getDevice deviceId devs = find (\<lambda>d. d_id d = deviceId) devs"

definition setDevice :: "device \<Rightarrow> device list \<Rightarrow> device list" where
  "setDevice dev devs =
     (if getDevice (d_id dev) devs = None then devs @ [dev]
      else map (\<lambda>d. if d_id d = d_id dev then dev else d) devs)"

definition deleteDevice :: "string \<Rightarrow> device list \<Rightarrow> device list" where
  "deleteDevice deviceId devs = filter (\<lambda>d. d_id d \<noteq> deviceId) devs"

definition mutateDevice :: "string \<Rightarrow> (device \<Rightarrow> device) \<Rightarrow> device list \<Rightarrow> device list" where
  "mutateDevice deviceId f devs = map (\<lambda>d. if d_id d = deviceId then f d else d) devs"

definition getEmergencyRoute :: "service \<Rightarrow> hospital_route option" where
  "getEmergencyRoute s = (case sv_hospitalRoutes s of r # rest \<Rightarrow> Some r | [] \<Rightarrow> None)"

definition getShortestRoute :: "service \<Rightarrow> hospital_route option" where
  "getShortestRoute s = sv_autoSelectShortestRoute s"

definition subscribe :: "nat \<Rightarrow> service \<Rightarrow> service" where
  "subscribe callback s =
     (if callback \<in> set (sv_subscribers s) then s
      else s\<lparr> sv_subscribers := sv_subscribers s @ [callback] \<rparr>)"

definition unsubscribe :: "nat \<Rightarrow> service \<Rightarrow> service" where
  "unsubscribe callback s = s\<lparr> sv_subscribers := removeAll callback (sv_subscribers s) \<rparr>"

definition currentSnapshot :: "service \<Rightarrow> snapshot" where
  "currentSnapshot s =
     \<lparr> sn_devices = sv_devices s,
       sn_connections = sv_connections s,
       sn_hospitals = sv_hospitals s,
       sn_hospitalRoutes = sv_hospitalRoutes s,
       sn_topology = sv_networkTopology s,
       sn_workContext = sv_workContext s,
       sn_emergencyRoute = getEmergencyRoute s,
       sn_shortestRoute = getShortestRoute s \<rparr>"

definition notifySubscribers :: "service \<Rightarrow> service" where
  "notifySubscribers s =
     s\<lparr> sv_delivered :=
          sv_delivered s @ map (\<lambda>callback. (callback, currentSnapshot s)) (sv_subscribers s) \<rparr>"

text \<open>
  The comparator of \<^verbatim>\<open>hospitalRoutes.sort\<close> in \<^verbatim>\<open>updateHospitals\<close>. At a road distance of
  exactly -0.1 the source divides by zero and scores Infinity, where the division here is 0;
  the provider reports lengths, which are not negative.
\<close>

definition urgencyScore :: "hospital_route \<Rightarrow> real" where
  "urgencyScore a = real_of_int (h_workPriority a) + 20 / (hr_roadDistance a + 0.1)"

definition urgencyOrder :: "hospital_route \<Rightarrow> hospital_route \<Rightarrow> real" where
  "urgencyOrder a b = urgencyScore b - urgencyScore a"

text \<open>
  \<^verbatim>\<open>updateHospitals\<close>: \<open>directory\<close> is the directory's answer to the query and \<open>answers\<close>
  the routing provider's answers by destination index. Neither awaited call rejects, so
  the \<^verbatim>\<open>catch\<close> is never entered.
\<close>

definition updateHospitals ::
  "directory_response \<Rightarrow> (nat \<Rightarrow> routing_response) \<Rightarrow> real \<Rightarrow> real \<Rightarrow> service \<Rightarrow> service" where
  "updateHospitals directory answers latitude longitude s =
     (let s1 = s\<lparr> sv_hospitals := findNearbyHospitals directory latitude longitude \<rparr>;
          s2 = (if length (sv_hospitals s1) > 0
                then (let topHospitals = take 5 (sv_hospitals s1);
                          routes = js_sort urgencyOrder
                                     (getMultipleRoutes answers latitude longitude topHospitals)
                      in s1\<lparr> sv_hospitalRoutes := routes,
                              sv_autoSelectShortestRoute :=
                                (case routes of r # rest \<Rightarrow> Some r | [] \<Rightarrow> None) \<rparr>)
                else s1)
      in notifySubscribers s2)"

text \<open>
  \<^verbatim>\<open>assignWorkRoles(devices)\<close>: \<open>devs\<close> is the array it is given, whose members are device
  objects of the map, so each write goes to the entry stored under that id.
\<close>

definition assignWorkRoles :: "device list \<Rightarrow> service \<Rightarrow> service" where
  "assignWorkRoles devs s =
     (let s1 = s\<lparr> sv_devices :=
                   foldl (\<lambda>registry dev.
                            mutateDevice (d_id dev)
                              (\<lambda>d. d\<lparr> d_workRole := ''worker'', d_emergencyResponder := False \<rparr>)
                              registry)
                         (sv_devices s) devs \<rparr>
      in case (sv_hospitals s1, devs) of
           (nearestHospital # lower, first # others) \<Rightarrow>
             (let closestDevice = closestDeviceTo nearestHospital first devs
              in s1\<lparr> sv_devices :=
                      mutateDevice (d_id closestDevice)
                        (\<lambda>d. d\<lparr> d_workRole := ''emergency-responder'',
                                d_emergencyResponder := True \<rparr>)
                        (sv_devices s1) \<rparr>)
         | _ \<Rightarrow> s1)"

definition updateNetworkTopology :: "service \<Rightarrow> service" where
  "updateNetworkTopology s =
     (let devs = sv_devices s;
          onlineDevices = filter positioned_online devs
      in if length onlineDevices < 2 then s\<lparr> sv_connections := [] \<rparr>
         else (let conns =
                     (if sv_networkTopology s = ''emergency''
                      then createEmergencyTopology onlineDevices (sv_hospitals s)
                      else if sv_networkTopology s = ''work-optimal''
                      then take (length onlineDevices * 2)
                             (findWorkOptimalPaths onlineDevices (sv_hospitals s))
                      else if sv_networkTopology s = ''mst''
                      then findMinimumSpanningTree onlineDevices (sv_hospitals s)
                      else createEmergencyTopology onlineDevices (sv_hospitals s))
               in assignWorkRoles onlineDevices (s\<lparr> sv_connections := conns \<rparr>)))"

definition setEmergencyMode :: "bool \<Rightarrow> service \<Rightarrow> service" where
  "setEmergencyMode enabled s =
     (let s1 = s\<lparr> sv_workContext := (sv_workContext s)\<lparr> wc_emergencyMode := enabled \<rparr> \<rparr>;
          s2 = (if enabled then s1\<lparr> sv_networkTopology := ''emergency'' \<rparr> else s1)
      in updateNetworkTopology s2)"

text \<open>\<^verbatim>\<open>registerDevice\<close>; the device it returns is the entry it stored.\<close>

definition registerDevice :: "string \<Rightarrow> string \<Rightarrow> string \<Rightarrow> service \<Rightarrow> service" where
  "registerDevice deviceId deviceName workRole s =
     (let dev = \<lparr> d_id = deviceId,
                  d_name = deviceName,
                  d_position = None,
                  d_lastUpdate = None,
                  d_isOnline = True,
                  d_accuracy = 0,
                  d_workRole = workRole,
                  d_emergencyResponder = False,
                  d_lastEmergencyUpdate = None \<rparr>
      in updateNetworkTopology (s\<lparr> sv_devices := setDevice dev (sv_devices s) \<rparr>))"

text \<open>
  \<^verbatim>\<open>updateDeviceLocation\<close>: \<open>now\<close> is the clock read by \<^verbatim>\<open>new Date()\<close>; \<open>directory\<close> and
  \<open>answers\<close> are what the two providers answer during the call. The call runs as one
  step; the callback it schedules is counted in \<open>sv_timers\<close> and runs as
  \<open>locationTimerFired\<close>.
\<close>

definition updateDeviceLocation ::
  "string \<Rightarrow> real \<times> real \<Rightarrow> real \<Rightarrow> int \<Rightarrow> directory_response \<Rightarrow> (nat \<Rightarrow> routing_response) \<Rightarrow>
   service \<Rightarrow> service" where
  "updateDeviceLocation deviceId position accuracy now directory answers s =
     (case getDevice deviceId (sv_devices s) of
        None \<Rightarrow> s
      | Some dev \<Rightarrow>
          (let s1 = s\<lparr> sv_devices :=
                        mutateDevice deviceId
                          (\<lambda>d. d\<lparr> d_position := Some position,
                                  d_lastUpdate := Some now,
                                  d_accuracy := accuracy,
                                  d_isOnline := True \<rparr>)
                          (sv_devices s) \<rparr>;
               s2 = updateHospitals directory answers (fst position) (snd position) s1;
               s3 = updateNetworkTopology s2
           in s3\<lparr> sv_timers := sv_timers s3 + 1 \<rparr>))"

definition locationTimerFired :: "service \<Rightarrow> service" where
  "locationTimerFired s =
     (if sv_timers s = 0 then s
      else notifySubscribers (s\<lparr> sv_timers := sv_timers s - 1 \<rparr>))"

definition removeDevice :: "string \<Rightarrow> service \<Rightarrow> service" where
  "removeDevice deviceId s =
     notifySubscribers
       (updateNetworkTopology (s\<lparr> sv_devices := deleteDevice deviceId (sv_devices s) \<rparr>))"

definition setNetworkTopology :: "string \<Rightarrow> service \<Rightarrow> service" where
  "setNetworkTopology topology s = updateNetworkTopology (s\<lparr> sv_networkTopology := topology \<rparr>)"

text \<open>
  \<^verbatim>\<open>markOfflineIfStale\<close>: \<open>now\<close> is the clock read by \<^verbatim>\<open>new Date()\<close>. \<open>staleSweep\<close> is the
  \<^verbatim>\<open>forEach\<close> over the devices; it returns the devices and the flag \<^verbatim>\<open>changed\<close>.
\<close>

definition isStale :: "int \<Rightarrow> device \<Rightarrow> bool" where
  "isStale now dev = (case d_lastUpdate dev of None \<Rightarrow> False | Some t \<Rightarrow> now - t > 30000)"

fun staleSweep :: "int \<Rightarrow> device list \<Rightarrow> bool \<Rightarrow> device list \<times> bool" where
  "staleSweep now [] changed = ([], changed)"
| "staleSweep now (dev # rest) changed =
     (if isStale now dev
      then (if d_isOnline dev
            then (case staleSweep now rest True of
                    (rest', changed') \<Rightarrow> (dev\<lparr> d_isOnline := False \<rparr> # rest', changed'))
            else (case staleSweep now rest changed of
                    (rest', changed') \<Rightarrow> (dev # rest', changed')))
      else (case staleSweep now rest changed of
              (rest', changed') \<Rightarrow> (dev # rest', changed')))"

definition markOfflineIfStale :: "int \<Rightarrow> service \<Rightarrow> service" where
  "markOfflineIfStale now s =
     (case staleSweep now (sv_devices s) False of
        (devs, changed) \<Rightarrow>
          (let s1 = s\<lparr> sv_devices := devs \<rparr>
           in if changed then notifySubscribers (updateNetworkTopology s1) else s1))"

text \<open>A device with its two role fields blanked: what role assignment leaves alone.\<close>

definition erase_roles :: "device \<Rightarrow> device" where
  "erase_roles d = d\<lparr> d_workRole := [], d_emergencyResponder := False \<rparr>"

text \<open>
  Worked examples. \<open>sweep_example\<close>: one subscriber and four devices whose last updates are
  30001, 30000 and 29999 ms before the time 100000, and none. \<open>lone_worker\<close>: a new service
  in which one device registers and reports its location while both providers are down.
\<close>

definition sweep_example :: service where
  "sweep_example =
     (subscribe 0 newService)
       \<lparr> sv_devices :=
           [worker ''old'' (Some (22.5958, 88.2636)) (Some 69999),
            worker ''edge'' None (Some 70000),
            worker ''fresh'' (Some (22.5958, 88.2636)) (Some 70001),
            worker ''silent'' None None] \<rparr>"

definition lone_worker :: service where
  "lone_worker =
     updateDeviceLocation ''d1'' (22.5958, 88.2636) 5 1000 DirFetchRejected (\<lambda>i. RouteFetchRejected)
       (registerDevice ''d1'' ''Worker-1'' ''worker'' newService)"

text \<open>
  The distance role assignment compares, and its two writes: the default role and the
  promotion.
\<close>

definition distanceTo :: "hospital \<Rightarrow> device \<Rightarrow> real" where
  "distanceTo h d = haversine (lat_of d) (lng_of d) (fst (h_position h)) (snd (h_position h))"

definition resetRole :: "device \<Rightarrow> device" where
  "resetRole d = d\<lparr> d_workRole := ''worker'', d_emergencyResponder := False \<rparr>"

definition promote :: "device \<Rightarrow> device" where
  "promote d = d\<lparr> d_workRole := ''emergency-responder'', d_emergencyResponder := True \<rparr>"

text \<open>A service with three online workers at one place and a fourth that never reported.\<close>

definition three_workers :: service where
  "three_workers =
     newService
       \<lparr> sv_devices :=
           [worker ''a'' (Some (22.5958, 88.2636)) (Some 0),
            worker ''b'' (Some (22.5958, 88.2636)) (Some 0),
            worker ''c'' (Some (22.5958, 88.2636)) (Some 0),
            worker ''d'' None None] \<rparr>"

section \<open>Properties of the distance\<close>

lemma sin_half_diff_sq:
  fixes x y c :: real
  shows "(sin ((y - x) * c / 2))\<^sup>2 = (sin ((x - y) * c / 2))\<^sup>2"
proof -
  have "(y - x) * c / 2 = - ((x - y) * c / 2)"
    by (simp add: field_simps)
  then show ?thesis
    by (metis sin_minus power2_minus)
qed

lemma haversine_a_sym: "haversine_a lat1 lon1 lat2 lon2 = haversine_a lat2 lon2 lat1 lon1"
  unfolding haversine_a_def Let_def
  using sin_half_diff_sq [of lat2 lat1 "pi / 180"] sin_half_diff_sq [of lon2 lon1 "pi / 180"]
  by (simp add: mult.commute)

lemma haversine_a_same: "haversine_a lat lon lat lon = 0"
  by (simp add: haversine_a_def)

lemma haversine_same: "haversine lat lon lat lon = 0"
  by (simp add: haversine_def haversine_a_same atan2_def)

text \<open>
  The intermediate \<open>a\<close> lies between 0 and 1 for all arguments, so neither square root of
  \<open>haversine\<close> is taken of a negative number.
\<close>

lemma half_angle_sum:
  fixes x y :: real
  shows "(sin ((y - x) / 2))\<^sup>2 + cos x * cos y = (cos ((x + y) / 2))\<^sup>2"
proof -
  have "2 * ((y - x) / 2) = y - x" by simp
  then have 1: "(sin ((y - x) / 2))\<^sup>2 = (1 - cos (y - x)) / 2"
    using cos_double_sin [of "(y - x) / 2"] by (simp only: ) simp
  have "2 * ((x + y) / 2) = x + y" by simp
  then have 2: "(cos ((x + y) / 2))\<^sup>2 = (1 + cos (x + y)) / 2"
    using cos_double_cos [of "(x + y) / 2"] by (simp only: ) simp
  have 3: "cos x * cos y = (cos (x - y) + cos (x + y)) / 2"
    by (rule cos_times_cos)
  have 4: "cos (y - x) = cos (x - y)"
    by (metis cos_minus minus_diff_eq)
  show ?thesis unfolding 1 2 3 4 by (simp add: field_simps)
qed

lemma haversine_a_range: "0 \<le> haversine_a lat1 lon1 lat2 lon2 \<and> haversine_a lat1 lon1 lat2 lon2 \<le> 1"
proof -
  define x where "x = lat1 * (pi / 180)"
  define y where "y = lat2 * (pi / 180)"
  define s where "s = (sin ((lon2 - lon1) * (pi / 180) / 2))\<^sup>2"
  define u where "u = (sin ((y - x) / 2))\<^sup>2"
  define v where "v = (cos ((x + y) / 2))\<^sup>2"
  have s: "0 \<le> s" "s \<le> 1" unfolding s_def by (simp_all add: abs_square_le_1)
  have u: "0 \<le> u" "u \<le> 1" unfolding u_def by (simp_all add: abs_square_le_1)
  have v: "0 \<le> v" "v \<le> 1" unfolding v_def by (simp_all add: abs_square_le_1)
  have cc: "cos x * cos y = v - u"
    using half_angle_sum [of y x] by (simp add: u_def v_def)
  have e: "(lat2 - lat1) * (pi / 180) / 2 = (y - x) / 2"
    by (simp add: x_def y_def left_diff_distrib)
  have "haversine_a lat1 lon1 lat2 lon2 =
          (sin ((lat2 - lat1) * (pi / 180) / 2))\<^sup>2 + cos x * cos y * s"
    unfolding haversine_a_def Let_def x_def y_def s_def by (rule refl)
  then have "haversine_a lat1 lon1 lat2 lon2 = u + cos x * cos y * s"
    unfolding e u_def .
  then have a: "haversine_a lat1 lon1 lat2 lon2 = (1 - s) * u + s * v"
    unfolding cc by (simp add: algebra_simps)
  have "0 \<le> (1 - s) * u + s * v" using s u v by simp
  moreover have "(1 - s) * u + s * v \<le> (1 - s) * 1 + s * 1"
    using s u v by (intro add_mono mult_left_mono) simp_all
  ultimately show ?thesis unfolding a by simp
qed

text \<open>
  In exact arithmetic the formula is symmetric and zero from a point to itself. The source
  is not symmetric under \<^verbatim>\<open>==\<close> where it returns NaN (see the first section), so this is a
  property of the formula and not of the program.
\<close>

lemma haversine_exact_symmetric:
  "haversine lat1 lon1 lat2 lon2 = haversine lat2 lon2 lat1 lon1 \<and>
   haversine lat1 lon1 lat1 lon1 = 0"
  by (simp add: haversine_def haversine_a_sym [of lat1 lon1 lat2 lon2] haversine_a_same atan2_def)

section \<open>Properties of the sort\<close>

lemma set_js_insert: "set (js_insert cmp x ys) = insert x (set ys)"
  by (induction ys) auto



lemma length_js_insert: "length (js_insert cmp x ys) = Suc (length ys)"
  by (induction ys) auto

lemma length_js_sort: "length (js_sort cmp xs) = length xs"
  by (induction xs) (auto simp: length_js_insert)

lemma set_js_sort: "set (js_sort cmp xs) = set xs"
  by (induction xs) (auto simp: set_js_insert)



section \<open>Distances of the fallback facilities\<close>







section \<open>The hospital ranker\<close>

lemma getFallbackHospitals_eq:
  "getFallbackHospitals la lo =
     map (fallbackHospital la lo)
       [(0, fallbackHospitals la lo ! 0), (3, fallbackHospitals la lo ! 3),
        (1, fallbackHospitals la lo ! 1), (2, fallbackHospitals la lo ! 2)]"
  by (simp add: getFallbackHospitals_def fallbackHospitals_def fallbackHospital_def
      fallbackOrder_def enumerate_eq_zip upt_rec)

lemma findNearbyHospitals_failure:
  "resp = DirFetchRejected \<or> resp = DirNotOk \<or> resp = DirMalformed \<Longrightarrow>
   findNearbyHospitals resp la lo = getFallbackHospitals la lo"
  by (auto simp: findNearbyHospitals_def queryHospitals_def)





text \<open>
  Claim C4, as the code has it. When the directory query fails (the request rejects, the
  response is not ok, or the body is malformed), \<open>findNearbyHospitals\<close> returns four
  synthetic facilities, each 0.01 degrees off the origin in latitude and in longitude: the
  two emergency ones first with \<open>workPriority\<close> 10, then the two others with 5. The
  emergency flags are true, false, false, true in the order of construction and true, true,
  false, false in the returned list.
\<close>

theorem fallback_on_directory_failure:
  assumes "resp = DirFetchRejected \<or> resp = DirNotOk \<or> resp = DirMalformed"
  shows "length (findNearbyHospitals resp la lo) = 4 \<and>
         map h_id (findNearbyHospitals resp la lo) =
           [FallbackHospitalId 0, FallbackHospitalId 3, FallbackHospitalId 1, FallbackHospitalId 2] \<and>
         map h_position (findNearbyHospitals resp la lo) =
           [(la + 0.01, lo + 0.01), (la - 0.01, lo - 0.01), (la - 0.01, lo + 0.01), (la + 0.01, lo - 0.01)] \<and>
         map h_emergency (findNearbyHospitals resp la lo) = [True, True, False, False] \<and>
         map h_workPriority (findNearbyHospitals resp la lo) = [10, 10, 5, 5] \<and>
         map fb_emergency (fallbackHospitals la lo) = [True, False, False, True] \<and>
         successively priority_before (findNearbyHospitals resp la lo)"
  unfolding findNearbyHospitals_failure [OF assms] getFallbackHospitals_eq
  by (simp add: fallbackHospitals_def fallbackHospital_def priority_before_def)

theorem fallback_on_directory_failure_witness:
  "map h_id (findNearbyHospitals DirNotOk 22.5958 88.2636) =
     [FallbackHospitalId 0, FallbackHospitalId 3, FallbackHospitalId 1, FallbackHospitalId 2] \<and>
   map h_position (findNearbyHospitals DirNotOk 22.5958 88.2636) =
     [(22.6058, 88.2736), (22.5858, 88.2536), (22.5858, 88.2736), (22.6058, 88.2536)] \<and>
   map h_workPriority (findNearbyHospitals DirNotOk 22.5958 88.2636) = [10, 10, 5, 5]"
  using fallback_on_directory_failure [of DirNotOk "22.5958" "88.2636"] by simp

text \<open>
  Claim C4 as stated fails: the emergency flags do not alternate, neither in the returned
  list nor in the order of construction.
\<close>

theorem fallback_flags_not_alternating:
  "\<not> alternating (map h_emergency (findNearbyHospitals DirFetchRejected 22.5958 88.2636)) \<and>
   \<not> alternating (map fb_emergency (fallbackHospitals 22.5958 88.2636))"
  by (simp add: findNearbyHospitals_failure getFallbackHospitals_eq alternating_def
      fallbackHospitals_def fallbackHospital_def)

lemma toHospital_zero: "zero_coordinate e \<Longrightarrow> toHospital la lo e = None"
  by (auto simp: zero_coordinate_def toHospital_def falsy_num_def split: option.splits prod.splits)

text \<open>
  Claim C10. A directory entry whose resolved latitude or longitude is the number 0 is
  dropped: the callback returns null for it, and the ranking of a response that holds the
  entry is the ranking of the response without it.
\<close>

theorem zero_coordinate_dropped:
  assumes "zero_coordinate e"
  shows "toHospital la lo e = None \<and>
         findNearbyHospitals (DirElements (pre @ e # post)) la lo =
         findNearbyHospitals (DirElements (pre @ post)) la lo"
  using toHospital_zero [OF assms, of la lo]
  by (simp add: findNearbyHospitals_def queryHospitals_def List.map_filter_def)

theorem zero_coordinate_dropped_witness:
  "zero_coordinate equator_node \<and> toHospital 0.01 88.2 equator_node = None \<and>
   findNearbyHospitals (DirElements [equator_node]) 0.01 88.2 = []"
proof -
  have z: "zero_coordinate equator_node"
    by (simp add: zero_coordinate_def resolve_coords_def equator_node_def)
  have "findNearbyHospitals (DirElements []) 0.01 88.2 = []"
    by (simp add: findNearbyHospitals_def queryHospitals_def List.map_filter_def)
  with z zero_coordinate_dropped [OF z, of "0.01" "88.2" "[]" "[]"] show ?thesis by simp
qed

section \<open>Routing\<close>

text \<open>
  The fallback of \<open>getRoute\<close>: whatever the \<^verbatim>\<open>try\<close> block throws, the route is the straight
  line from origin to destination, its distance is what \<open>haversine\<close> returns for them, its
  duration is that value times 2, and \<open>r_isFallback\<close> is true. Where the source's
  \<open>haversine\<close> is NaN (see the first section) both numbers are NaN there, and the duration
  does not equal twice the distance under \<^verbatim>\<open>==\<close>.
\<close>

lemma getRoute_fallback_shape:
  assumes "requestRoute resp = Inl err"
  shows "getRoute resp fromLat fromLng toLat toLng =
           \<lparr> r_coordinates = [(fromLat, fromLng), (toLat, toLng)],
             r_distance = haversine fromLat fromLng toLat toLng,
             r_duration = haversine fromLat fromLng toLat toLng * 2,
             r_steps = [],
             r_isFallback = True \<rparr>"
  using assms by (simp add: getRoute_def)

lemma requestRoute_failures:
  "requestRoute RouteFetchRejected = Inl NetworkFailure"
  "requestRoute RouteNotOk = Inl (Error ''Routing service unavailable'')"
  "requestRoute (RouteBody None) = Inl (Error ''No route found'')"
  "requestRoute (RouteBody (Some [])) = Inl (Error ''No route found'')"
  by (simp_all add: requestRoute_def)

section \<open>The spanning topology\<close>

lemma mstLoop_bound:
  "int (length mst) < limit \<Longrightarrow> int (length (mstLoop limit paths mst connectedNodes)) \<le> limit"
proof (induction paths arbitrary: mst connectedNodes)
  case Nil
  then show ?case by simp
next
  case (Cons path rest)
  show ?case
  proof (cases "d_id (c_from path) \<in> connectedNodes \<and> d_id (c_to path) \<in> connectedNodes")
    case True
    then show ?thesis using Cons by simp
  next
    case False
    show ?thesis
    proof (cases "int (length (mst @ [path])) = limit")
      case True
      with False show ?thesis by (auto simp: Let_def)
    next
      case ne: False
      with Cons.prems have "int (length (mst @ [path])) < limit" by simp
      from Cons.IH [OF this] False ne show ?thesis by (auto simp: Let_def)
    qed
  qed
qed

lemma findWorkOptimalPaths_few: "length (filter positioned_online devs) < 2 \<Longrightarrow> findWorkOptimalPaths devs hospitals = []"
  by (simp add: findWorkOptimalPaths_def)

lemma findMinimumSpanningTree_bound:
  "int (length (findMinimumSpanningTree devs hospitals)) \<le>
   max 0 (int (length (filter positioned_online devs)) - 1)"
proof (cases "length (filter positioned_online devs) < 2")
  case True
  then show ?thesis
    by (simp add: findMinimumSpanningTree_def findWorkOptimalPaths_few)
next
  case False
  then have "int (length ([] :: connection list)) < int (length (filter positioned_online devs)) - 1"
    by simp
  from mstLoop_bound [OF this, of "js_sort distanceOrder (findWorkOptimalPaths devs hospitals)" "{}"]
  have "int (length (mstLoop (int (length (filter positioned_online devs)) - 1)
               (js_sort distanceOrder (findWorkOptimalPaths devs hospitals)) [] {}))
        \<le> max 0 (int (length (filter positioned_online devs)) - 1)"
    by linarith
  then show ?thesis
    by (simp add: findMinimumSpanningTree_def Let_def)
qed

section \<open>The coordination service\<close>

lemma notifySubscribers_fields [simp]:
  "sv_devices (notifySubscribers s) = sv_devices s"
  "sv_hospitals (notifySubscribers s) = sv_hospitals s"
  "sv_subscribers (notifySubscribers s) = sv_subscribers s"
  "sv_networkTopology (notifySubscribers s) = sv_networkTopology s"
  "sv_connections (notifySubscribers s) = sv_connections s"
  "sv_timers (notifySubscribers s) = sv_timers s"
  "currentSnapshot (notifySubscribers s) = currentSnapshot s"
  by (simp_all add: notifySubscribers_def currentSnapshot_def getEmergencyRoute_def getShortestRoute_def)

lemma notifySubscribers_delivered:
  "sv_delivered (notifySubscribers s) =
     sv_delivered s @ map (\<lambda>callback. (callback, currentSnapshot s)) (sv_subscribers s)"
  by (simp add: notifySubscribers_def)

lemma erase_mutate:
  "(\<And>d. erase_roles (f d) = erase_roles d) \<Longrightarrow>
   map erase_roles (mutateDevice k f devs) = map erase_roles devs"
  by (induction devs) (auto simp: mutateDevice_def)

lemma erase_foldl_mutate:
  "(\<And>d. erase_roles (f d) = erase_roles d) \<Longrightarrow>
   map erase_roles (foldl (\<lambda>registry dev. mutateDevice (d_id dev) f registry) devs ks) =
   map erase_roles devs"
proof (induction ks arbitrary: devs)
  case Nil
  then show ?case by simp
next
  case (Cons k ks)
  then show ?case by (simp add: erase_mutate)
qed

lemma assignWorkRoles_frame:
  "map erase_roles (sv_devices (assignWorkRoles devs s)) = map erase_roles (sv_devices s)"
  "sv_delivered (assignWorkRoles devs s) = sv_delivered s"
  "sv_subscribers (assignWorkRoles devs s) = sv_subscribers s"
  "sv_connections (assignWorkRoles devs s) = sv_connections s"
  "sv_hospitals (assignWorkRoles devs s) = sv_hospitals s"
  "sv_networkTopology (assignWorkRoles devs s) = sv_networkTopology s"
  by (auto simp: assignWorkRoles_def Let_def erase_mutate erase_foldl_mutate erase_roles_def
      split: list.splits)

lemma updateNetworkTopology_frame:
  "map erase_roles (sv_devices (updateNetworkTopology s)) = map erase_roles (sv_devices s)"
  "sv_delivered (updateNetworkTopology s) = sv_delivered s"
  "sv_subscribers (updateNetworkTopology s) = sv_subscribers s"
  "sv_hospitals (updateNetworkTopology s) = sv_hospitals s"
  "sv_networkTopology (updateNetworkTopology s) = sv_networkTopology s"
  by (simp_all add: updateNetworkTopology_def Let_def assignWorkRoles_frame)

lemma same_roles_erased:
  assumes "map erase_roles xs = map erase_roles ys"
  shows "map d_isOnline xs = map d_isOnline ys" "map d_lastUpdate xs = map d_lastUpdate ys"
proof -
  have "map (d_isOnline \<circ> erase_roles) xs = map (d_isOnline \<circ> erase_roles) ys"
    using assms by (metis map_map)
  then show "map d_isOnline xs = map d_isOnline ys" by (simp add: erase_roles_def comp_def)
  have "map (d_lastUpdate \<circ> erase_roles) xs = map (d_lastUpdate \<circ> erase_roles) ys"
    using assms by (metis map_map)
  then show "map d_lastUpdate xs = map d_lastUpdate ys" by (simp add: erase_roles_def comp_def)
qed

lemma mst_mode_connections:
  "sv_connections (setNetworkTopology ''mst'' s) =
     (if length (filter positioned_online (sv_devices s)) < 2 then []
      else findMinimumSpanningTree (filter positioned_online (sv_devices s)) (sv_hospitals s))"
  by (simp add: setNetworkTopology_def updateNetworkTopology_def Let_def assignWorkRoles_frame)

text \<open>
  Claim C6. The mst mode yields at most \<open>max 0 (n - 1)\<close> connections, \<open>n\<close> being the number
  of devices that are online and have a position: this holds for \<open>findMinimumSpanningTree\<close>
  on every array of devices and every facility list, and for the connections of the service
  after the mode is set to mst.
\<close>

theorem mst_connection_bound:
  "int (length (findMinimumSpanningTree devs hospitals)) \<le>
     max 0 (int (length (filter positioned_online devs)) - 1) \<and>
   int (length (sv_connections (setNetworkTopology ''mst'' s))) \<le>
     max 0 (int (length (filter positioned_online (sv_devices s))) - 1)"
proof -
  have "int (length (findMinimumSpanningTree (filter positioned_online (sv_devices s)) (sv_hospitals s)))
        \<le> max 0 (int (length (filter positioned_online (sv_devices s))) - 1)"
    using findMinimumSpanningTree_bound [of "filter positioned_online (sv_devices s)" "sv_hospitals s"] by simp
  then have "int (length (sv_connections (setNetworkTopology ''mst'' s))) \<le>
     max 0 (int (length (filter positioned_online (sv_devices s))) - 1)"
    unfolding mst_mode_connections by (cases "length (filter positioned_online (sv_devices s)) < 2") simp_all
  with findMinimumSpanningTree_bound [of devs hospitals] show ?thesis by blast
qed

lemma mst_three_workers:
  "map (\<lambda>c. (d_id (c_from c), d_id (c_to c))) (sv_connections (setNetworkTopology ''mst'' three_workers)) =
     [(''a'', ''b''), (''a'', ''c'')]"
  by (simp add: mst_mode_connections three_workers_def newService_def
      findMinimumSpanningTree_def findWorkOptimalPaths_def positioned_online_def worker_def
      makePath_def workScoreOf_def workScoreOrder_def distanceOrder_def lat_of_def lng_of_def
      haversine_same Let_def)

theorem mst_connection_bound_witness:
  "map (\<lambda>c. (d_id (c_from c), d_id (c_to c))) (sv_connections (setNetworkTopology ''mst'' three_workers)) =
     [(''a'', ''b''), (''a'', ''c'')] \<and>
   length (filter positioned_online (sv_devices three_workers)) = 3 \<and>
   int (length (sv_connections (setNetworkTopology ''mst'' three_workers))) \<le> 2"
  using mst_connection_bound [of "[]" "[]" three_workers] mst_three_workers
  by (simp add: three_workers_def newService_def positioned_online_def worker_def)

lemma staleSweep_fst:
  "fst (staleSweep now devs changed) =
     map (\<lambda>d. if isStale now d \<and> d_isOnline d then d\<lparr> d_isOnline := False \<rparr> else d) devs"
  by (induction devs arbitrary: changed) (simp_all add: case_prod_beta)

lemma staleSweep_snd:
  "snd (staleSweep now devs changed) = (changed \<or> list_ex (\<lambda>d. isStale now d \<and> d_isOnline d) devs)"
  by (induction devs arbitrary: changed) (auto simp: case_prod_beta)

lemma staleSweep_unchanged:
  "\<not> list_ex (\<lambda>d. isStale now d \<and> d_isOnline d) devs \<Longrightarrow> fst (staleSweep now devs changed) = devs"
  unfolding staleSweep_fst by (induction devs) auto

lemma sweep_online:
  "map d_isOnline (fst (staleSweep now devs changed)) =
     map (\<lambda>d. d_isOnline d \<and> (case d_lastUpdate d of None \<Rightarrow> True | Some t \<Rightarrow> now - t \<le> 30000)) devs"
  unfolding staleSweep_fst by (induction devs) (auto simp: isStale_def split: option.splits)

lemma sweep_lastUpdate:
  "map d_lastUpdate (fst (staleSweep now devs changed)) = map d_lastUpdate devs"
  unfolding staleSweep_fst by (induction devs) auto

lemma sweep_changed_iff:
  "list_ex (\<lambda>d. isStale now d \<and> d_isOnline d) devs \<longleftrightarrow>
   map d_isOnline (fst (staleSweep now devs changed)) \<noteq> map d_isOnline devs"
  unfolding staleSweep_fst by (induction devs) auto

lemma sweep_devices:
  "fst (staleSweep now devs changed) =
     map (\<lambda>d. d\<lparr> d_isOnline := d_isOnline d \<and>
                    (case d_lastUpdate d of None \<Rightarrow> True | Some t \<Rightarrow> now - t \<le> 30000) \<rparr>) devs"
  unfolding staleSweep_fst
  by (rule map_cong [OF refl]) (auto simp: isStale_def split: option.splits)

lemma markOfflineIfStale_devices:
  "map erase_roles (sv_devices (markOfflineIfStale now s)) =
   map erase_roles (fst (staleSweep now (sv_devices s) False))"
  by (cases "staleSweep now (sv_devices s) False")
    (simp add: markOfflineIfStale_def Let_def updateNetworkTopology_frame)

text \<open>
  Claim C7. \<open>markOfflineIfStale\<close> leaves a device online exactly when it was online and its
  last update is absent or at most 30000 ms before \<open>now\<close>: a device last updated more than
  30000 ms ago goes offline, and a device with no last update keeps its state. Last updates
  are not touched, and apart from the online flag only the two role fields of a device may
  differ afterwards. When no device's online state changes, the service is left as it was, so
  nothing is delivered to the subscribers; otherwise every subscriber receives the snapshot
  of the new state.
\<close>

theorem stale_sweep_marks_offline:
  "map d_isOnline (sv_devices (markOfflineIfStale now s)) =
     map (\<lambda>d. d_isOnline d \<and> (case d_lastUpdate d of None \<Rightarrow> True | Some t \<Rightarrow> now - t \<le> 30000))
       (sv_devices s) \<and>
   map d_lastUpdate (sv_devices (markOfflineIfStale now s)) = map d_lastUpdate (sv_devices s) \<and>
   map erase_roles (sv_devices (markOfflineIfStale now s)) =
     map (\<lambda>d. erase_roles
                (d\<lparr> d_isOnline := d_isOnline d \<and>
                     (case d_lastUpdate d of None \<Rightarrow> True | Some t \<Rightarrow> now - t \<le> 30000) \<rparr>))
       (sv_devices s) \<and>
   (if map d_isOnline (sv_devices (markOfflineIfStale now s)) = map d_isOnline (sv_devices s)
    then markOfflineIfStale now s = s
    else sv_delivered (markOfflineIfStale now s) =
           sv_delivered s @
           map (\<lambda>callback. (callback, currentSnapshot (markOfflineIfStale now s))) (sv_subscribers s))"
proof -
  let ?s' = "markOfflineIfStale now s"
  let ?sw = "staleSweep now (sv_devices s) False"
  have on: "map d_isOnline (sv_devices ?s') = map d_isOnline (fst ?sw)"
    and lu: "map d_lastUpdate (sv_devices ?s') = map d_lastUpdate (fst ?sw)"
    using same_roles_erased [OF markOfflineIfStale_devices] by blast+
  have changed: "snd ?sw \<longleftrightarrow> map d_isOnline (sv_devices ?s') \<noteq> map d_isOnline (sv_devices s)"
    unfolding on staleSweep_snd using sweep_changed_iff [of now "sv_devices s" False] by simp
  have a: "map d_isOnline (sv_devices ?s') =
     map (\<lambda>d. d_isOnline d \<and> (case d_lastUpdate d of None \<Rightarrow> True | Some t \<Rightarrow> now - t \<le> 30000))
       (sv_devices s)"
    unfolding on by (rule sweep_online)
  have b: "map d_lastUpdate (sv_devices ?s') = map d_lastUpdate (sv_devices s)"
    unfolding lu by (rule sweep_lastUpdate)
  have c: "?s' = s" if "map d_isOnline (sv_devices ?s') = map d_isOnline (sv_devices s)"
  proof -
    from that changed have ns: "\<not> snd ?sw" by simp
    then have "\<not> list_ex (\<lambda>d. isStale now d \<and> d_isOnline d) (sv_devices s)"
      by (simp add: staleSweep_snd)
    then have "fst ?sw = sv_devices s" by (rule staleSweep_unchanged)
    with ns show ?thesis
      by (cases ?sw) (simp add: markOfflineIfStale_def Let_def)
  qed
  have d: "sv_delivered ?s' =
           sv_delivered s @ map (\<lambda>callback. (callback, currentSnapshot ?s')) (sv_subscribers s)"
    if "map d_isOnline (sv_devices ?s') \<noteq> map d_isOnline (sv_devices s)"
  proof -
    from that changed have "snd ?sw" by simp
    then show ?thesis
      by (cases ?sw) (simp add: markOfflineIfStale_def Let_def notifySubscribers_delivered
          updateNetworkTopology_frame)
  qed
  have e: "map erase_roles (sv_devices ?s') =
     map (\<lambda>d. erase_roles
                (d\<lparr> d_isOnline := d_isOnline d \<and>
                     (case d_lastUpdate d of None \<Rightarrow> True | Some t \<Rightarrow> now - t \<le> 30000) \<rparr>))
       (sv_devices s)"
    unfolding markOfflineIfStale_devices sweep_devices by simp
  from a b c d e show ?thesis by simp
qed

lemma sweep_example_devices:
  "map (\<lambda>d. (d_id d, d_lastUpdate d, d_isOnline d)) (sv_devices (markOfflineIfStale 100000 sweep_example)) =
     [(''old'', Some 69999, False), (''edge'', Some 70000, True), (''fresh'', Some 70001, True),
      (''silent'', None, True)]"
  by (simp add: markOfflineIfStale_def sweep_example_def subscribe_def newService_def worker_def isStale_def
     updateNetworkTopology_def positioned_online_def Let_def notifySubscribers_def)

lemma sweep_example_delivered:
  "map fst (sv_delivered (markOfflineIfStale 100000 sweep_example)) = [0]"
  by (simp add: markOfflineIfStale_def sweep_example_def subscribe_def newService_def worker_def isStale_def
     updateNetworkTopology_def positioned_online_def Let_def notifySubscribers_def)

theorem stale_sweep_marks_offline_witness:
  "map (\<lambda>d. (d_id d, d_lastUpdate d, d_isOnline d)) (sv_devices (markOfflineIfStale 100000 sweep_example)) =
     [(''old'', Some 69999, False), (''edge'', Some 70000, True), (''fresh'', Some 70001, True),
      (''silent'', None, True)] \<and>
   map fst (sv_delivered (markOfflineIfStale 100000 sweep_example)) = [0] \<and>
   markOfflineIfStale 100000 (markOfflineIfStale 100000 sweep_example) =
     markOfflineIfStale 100000 sweep_example"
proof -
  let ?s = "markOfflineIfStale 100000 sweep_example"
  have on: "map d_isOnline (sv_devices ?s) = [False, True, True, True]"
   and lu: "map d_lastUpdate (sv_devices ?s) = [Some 69999, Some 70000, Some 70001, None]"
    using sweep_example_devices by (auto simp: map_eq_Cons_conv)
  from on lu have "map (\<lambda>d. d_isOnline d \<and> (case d_lastUpdate d of None \<Rightarrow> True | Some t \<Rightarrow> 100000 - t \<le> 30000))
          (sv_devices ?s) = map d_isOnline (sv_devices ?s)"
    by (auto simp: map_eq_Cons_conv)
  with stale_sweep_marks_offline [of 100000 ?s] have "markOfflineIfStale 100000 ?s = ?s"
    by simp
  with sweep_example_devices sweep_example_delivered show ?thesis by simp
qed

text \<open>
  Claim C8. \<open>updateDeviceLocation\<close> for an id that is not in the registry returns the service
  unchanged: no device is created, nothing else is written, and no error is raised.
\<close>

theorem unknown_device_update_is_noop:
  assumes "getDevice deviceId (sv_devices s) = None"
  shows "updateDeviceLocation deviceId position accuracy now directory answers s = s"
  using assms by (simp add: updateDeviceLocation_def)

theorem unknown_device_update_is_noop_witness:
  "getDevice ''ghost'' (sv_devices (registerDevice ''d1'' ''Worker-1'' ''worker'' newService)) = None \<and>
   updateDeviceLocation ''ghost'' (22.5958, 88.2636) 5 1000 DirFetchRejected (\<lambda>i. RouteFetchRejected)
     (registerDevice ''d1'' ''Worker-1'' ''worker'' newService) =
   registerDevice ''d1'' ''Worker-1'' ''worker'' newService"
proof -
  have h: "getDevice ''ghost'' (sv_devices (registerDevice ''d1'' ''Worker-1'' ''worker'' newService)) = None"
    by (simp add: registerDevice_def newService_def setDevice_def getDevice_def
        updateNetworkTopology_def positioned_online_def Let_def)
  from unknown_device_update_is_noop [OF h] h show ?thesis by simp
qed

text \<open>Which operations deliver a snapshot to every subscriber, and which deliver none.\<close>

lemma timers_frame:
  "sv_timers (assignWorkRoles devs s) = sv_timers s"
  "sv_timers (updateNetworkTopology s) = sv_timers s"
  "sv_timers (updateHospitals directory answers la lo s) = sv_timers s"
  by (auto simp: assignWorkRoles_def updateNetworkTopology_def updateHospitals_def Let_def
      split: list.splits)

lemma silent_events:
  "sv_delivered (registerDevice deviceId deviceName workRole s) = sv_delivered s"
  "sv_delivered (setNetworkTopology topology s) = sv_delivered s"
  "sv_delivered (setEmergencyMode enabled s) = sv_delivered s"
  by (simp_all add: registerDevice_def setNetworkTopology_def setEmergencyMode_def Let_def
      updateNetworkTopology_frame)

lemma publishing_events:
  "sv_delivered (updateHospitals directory answers la lo s) =
     sv_delivered s @
     map (\<lambda>callback. (callback, currentSnapshot (updateHospitals directory answers la lo s)))
       (sv_subscribers s)"
  "sv_delivered (removeDevice deviceId s) =
     sv_delivered s @
     map (\<lambda>callback. (callback, currentSnapshot (removeDevice deviceId s))) (sv_subscribers s)"
  "0 < sv_timers s \<Longrightarrow>
   sv_delivered (locationTimerFired s) =
     sv_delivered s @
     map (\<lambda>callback. (callback, currentSnapshot (locationTimerFired s))) (sv_subscribers s)"
  by (simp_all add: updateHospitals_def removeDevice_def locationTimerFired_def Let_def
      notifySubscribers_delivered updateNetworkTopology_frame)

lemma location_update_publishes:
  assumes "getDevice deviceId (sv_devices s) = Some dev"
  shows "\<exists>snap. sv_delivered (updateDeviceLocation deviceId position accuracy now directory answers s) =
           sv_delivered s @ map (\<lambda>callback. (callback, snap)) (sv_subscribers s)"
    and "sv_timers (updateDeviceLocation deviceId position accuracy now directory answers s) =
           Suc (sv_timers s)"
  using assms
  by (simp_all add: updateDeviceLocation_def Let_def updateNetworkTopology_frame publishing_events
      timers_frame)

text \<open>
  Claim C1 fails on the code for two of the events it lists. With one subscriber on a new
  service, \<open>registerDevice\<close> adds the device and \<open>setNetworkTopology\<close> changes the mode,
  and neither delivers a snapshot; \<open>removeDevice\<close> on the same service delivers one.
\<close>

theorem register_and_mode_change_publish_nothing:
  "sv_delivered (registerDevice ''d1'' ''Worker-1'' ''worker'' (subscribe 0 newService)) = [] \<and>
   map d_id (sv_devices (registerDevice ''d1'' ''Worker-1'' ''worker'' (subscribe 0 newService))) = [''d1''] \<and>
   sv_delivered (setNetworkTopology ''mst'' (subscribe 0 newService)) = [] \<and>
   sv_networkTopology (setNetworkTopology ''mst'' (subscribe 0 newService)) = ''mst'' \<and>
   map fst (sv_delivered (removeDevice ''d1'' (subscribe 0 newService))) = [0]"
  by (simp add: registerDevice_def setNetworkTopology_def removeDevice_def subscribe_def newService_def
      setDevice_def getDevice_def deleteDevice_def updateNetworkTopology_def positioned_online_def
      notifySubscribers_def Let_def)

lemma updateHospitals_frame:
  "sv_devices (updateHospitals directory answers la lo s) = sv_devices s"
  "sv_hospitals (updateHospitals directory answers la lo s) = findNearbyHospitals directory la lo"
  by (simp_all add: updateHospitals_def Let_def)

text \<open>
  Role assignment where it runs: with at least two online positioned devices (stored under
  distinct ids) and at least one facility, the device closest to the first facility is
  promoted, every other online positioned device is reset to a worker, and the remaining
  devices are left alone; so exactly one online positioned device is an emergency responder.
\<close>

lemma closestLoop_inv:
  assumes "closestLoop h devs (c0, m0) = (c, m)" "m0 = distanceTo h c0"
  shows "(c = c0 \<or> c \<in> set devs) \<and> m = distanceTo h c \<and> m \<le> m0 \<and>
         (\<forall>d\<in>set devs. m \<le> distanceTo h d)"
  using assms
proof (induction devs arbitrary: c0 m0)
  case Nil
  then show ?case by auto
next
  case (Cons dev rest)
  show ?case
  proof (cases "distanceTo h dev < m0")
    case True
    with Cons.prems have "closestLoop h rest (dev, distanceTo h dev) = (c, m)"
      by (simp add: distanceTo_def Let_def)
    from Cons.IH [OF this refl] True show ?thesis by auto
  next
    case False
    with Cons.prems have "closestLoop h rest (c0, m0) = (c, m)"
      by (simp add: distanceTo_def Let_def)
    from Cons.IH [OF this Cons.prems(2)] False show ?thesis by auto
  qed
qed

lemma closestDeviceTo_min:
  assumes "first \<in> set devs"
  shows "closestDeviceTo h first devs \<in> set devs \<and>
         (\<forall>d\<in>set devs. distanceTo h (closestDeviceTo h first devs) \<le> distanceTo h d)"
proof -
  obtain c m where cm: "closestLoop h devs (first, distanceTo h first) = (c, m)"
    by (cases "closestLoop h devs (first, distanceTo h first)")
  from closestLoop_inv [OF cm refl] assms cm show ?thesis
    by (auto simp: closestDeviceTo_def distanceTo_def)
qed

lemma mutateDevice_map: "mutateDevice k f devs = map (\<lambda>d. if d_id d = k then f d else d) devs"
  by (simp add: mutateDevice_def)

lemma foldl_reset:
  "foldl (\<lambda>registry dev. mutateDevice (d_id dev) resetRole registry) registry devs =
   map (\<lambda>d. if d_id d \<in> d_id ` set devs then resetRole d else d) registry"
proof (induction devs arbitrary: registry)
  case Nil
  then show ?case by simp
next
  case (Cons dev rest)
  show ?case
    unfolding foldl_Cons Cons.IH
    by (auto simp: mutateDevice_map resetRole_def)
qed

lemma role_writes [simp]:
  "d_id (resetRole d) = d_id d" "d_id (promote d) = d_id d" "promote (resetRole d) = promote d"
  by (simp_all add: resetRole_def promote_def)

lemma assignWorkRoles_map:
  assumes "sv_hospitals s = nearest # lower" "devs = first # others"
  shows "sv_devices (assignWorkRoles devs s) =
         map (\<lambda>d. if d_id d = d_id (closestDeviceTo nearest first devs) then promote d
                   else if d_id d \<in> d_id ` set devs then resetRole d else d) (sv_devices s)"
proof -
  have r: "(\<lambda>d. d\<lparr> d_workRole := ''worker'', d_emergencyResponder := False \<rparr>) = resetRole"
    by (simp add: resetRole_def fun_eq_iff)
  have p: "(\<lambda>d. d\<lparr> d_workRole := ''emergency-responder'', d_emergencyResponder := True \<rparr>) = promote"
    by (simp add: promote_def fun_eq_iff)
  show ?thesis
    unfolding assignWorkRoles_def r p foldl_reset
    using assms by (simp add: Let_def mutateDevice_map)
qed

lemma updateNetworkTopology_devices:
  assumes "filter positioned_online (sv_devices s) = first # second # others"
      and "sv_hospitals s = nearest # lower"
  shows "sv_devices (updateNetworkTopology s) =
         map (\<lambda>d. if d_id d = d_id (closestDeviceTo nearest first (first # second # others))
                   then promote d
                   else if d_id d \<in> d_id ` set (first # second # others) then resetRole d else d)
           (sv_devices s)"
  using assms
  by (simp add: updateNetworkTopology_def Let_def
      assignWorkRoles_map [where nearest = nearest and lower = lower and first = first
        and others = "second # others"])

lemma distinct_id_member:
  assumes "distinct (map d_id registry)" "d \<in> set registry" "d' \<in> set registry" "d_id d = d_id d'"
  shows "d = d'"
  using assms by (meson distinct_map inj_onD)

lemma roles_after_rebuild:
  assumes dist: "distinct (map d_id (sv_devices s))"
      and two: "2 \<le> length (filter positioned_online (sv_devices s))"
      and hosp: "sv_hospitals s = nearest # lower"
  shows "\<exists>c \<in> set (filter positioned_online (sv_devices s)).
           (\<forall>d \<in> set (filter positioned_online (sv_devices s)). distanceTo nearest c \<le> distanceTo nearest d) \<and>
           sv_devices (updateNetworkTopology s) =
             map (\<lambda>d. if d = c then promote d else if positioned_online d then resetRole d else d)
               (sv_devices s)"
proof -
  let ?online = "filter positioned_online (sv_devices s)"
  from two obtain first second others where fo: "?online = first # second # others"
    by (cases ?online; cases "tl ?online") auto
  let ?c = "closestDeviceTo nearest first ?online"
  have "first \<in> set ?online" using fo by simp
  from closestDeviceTo_min [OF this, of nearest]
  have cin: "?c \<in> set ?online" and cmin: "\<forall>d\<in>set ?online. distanceTo nearest ?c \<le> distanceTo nearest d"
    by blast+
  have "sv_devices (updateNetworkTopology s) =
          map (\<lambda>d. if d_id d = d_id ?c then promote d
                    else if d_id d \<in> d_id ` set ?online then resetRole d else d) (sv_devices s)"
    using updateNetworkTopology_devices [OF fo hosp] fo by simp
  also have "\<dots> = map (\<lambda>d. if d = ?c then promote d else if positioned_online d then resetRole d else d)
               (sv_devices s)"
  proof (rule map_cong [OF refl])
    fix d assume d: "d \<in> set (sv_devices s)"
    have 1: "d_id d = d_id ?c \<longleftrightarrow> d = ?c"
      using distinct_id_member [OF dist d] cin by auto
    have 2: "d_id d \<in> d_id ` set ?online \<longleftrightarrow> positioned_online d"
      using distinct_id_member [OF dist d] d by auto
    show "(if d_id d = d_id ?c then promote d
           else if d_id d \<in> d_id ` set ?online then resetRole d else d) =
          (if d = ?c then promote d else if positioned_online d then resetRole d else d)"
      unfolding 1 2 ..
  qed
  finally show ?thesis using cin cmin by blast
qed

lemma length_filter_eq_distinct:
  "distinct xs \<Longrightarrow> c \<in> set xs \<Longrightarrow> length (filter (\<lambda>d. d = c) xs) = 1"
  by (induction xs) (auto simp: filter_empty_conv)

lemma one_responder_after_rebuild:
  assumes dist: "distinct (map d_id (sv_devices s))"
      and two: "2 \<le> length (filter positioned_online (sv_devices s))"
      and hosp: "sv_hospitals s = nearest # lower"
  shows "length (filter (\<lambda>d. positioned_online d \<and> d_emergencyResponder d)
                   (sv_devices (updateNetworkTopology s))) = 1"
proof -
  from roles_after_rebuild [OF assms] obtain c where
    c: "c \<in> set (filter positioned_online (sv_devices s))" and
    m: "sv_devices (updateNetworkTopology s) =
          map (\<lambda>d. if d = c then promote d else if positioned_online d then resetRole d else d)
            (sv_devices s)"
    by blast
  let ?g = "\<lambda>d. if d = c then promote d else if positioned_online d then resetRole d else d"
  have "(\<lambda>d. positioned_online d \<and> d_emergencyResponder d) \<circ> ?g = (\<lambda>d. d = c)"
    using c by (auto simp: fun_eq_iff promote_def resetRole_def positioned_online_def)
  then have "filter (\<lambda>d. positioned_online d \<and> d_emergencyResponder d) (map ?g (sv_devices s)) =
             map ?g (filter (\<lambda>d. d = c) (sv_devices s))"
    by (simp only: filter_map)
  moreover have "distinct (sv_devices s)" using dist by (simp add: distinct_map)
  ultimately show ?thesis
    using c by (simp add: m length_filter_eq_distinct)
qed

text \<open>
  Claim C2 fails on the code when a single device is online: \<open>updateNetworkTopology\<close>
  returns before role assignment. In \<open>lone_worker\<close> the only device is online and
  positioned and four facilities are known, yet it stays a worker and no device is an
  emergency responder.
\<close>

theorem lone_worker_never_promoted:
  "map (\<lambda>d. (d_id d, positioned_online d, d_workRole d, d_emergencyResponder d)) (sv_devices lone_worker) =
     [(''d1'', True, ''worker'', False)] \<and>
   length (sv_hospitals lone_worker) = 4"
proof -
  have r: "sv_devices (registerDevice ''d1'' ''Worker-1'' ''worker'' newService) =
           [\<lparr> d_id = ''d1'', d_name = ''Worker-1'', d_position = None, d_lastUpdate = None,
              d_isOnline = True, d_accuracy = 0, d_workRole = ''worker'',
              d_emergencyResponder = False, d_lastEmergencyUpdate = None \<rparr>]"
    by (simp add: registerDevice_def newService_def setDevice_def getDevice_def
        updateNetworkTopology_def positioned_online_def Let_def)
  show ?thesis
    by (simp add: lone_worker_def updateDeviceLocation_def r getDevice_def Let_def mutateDevice_def
        updateNetworkTopology_def positioned_online_def updateHospitals_frame
        findNearbyHospitals_failure getFallbackHospitals_eq del: not_None_eq)
qed

end
